theory Spec2Isabelle
  imports Main "HOL-Library.Multiset"
begin

section \<open>The CoinGlass client of stream6.py\<close>

text \<open>
  The development embeds the class \<open>CoinGlassAPI\<close> of \<open>src/stream6.py\<close> and the
  part of \<open>main\<close> that reads the latest value of every series.

  The network, \<open>requests\<close> and \<open>pandas\<close> are libraries outside the source file. They
  are modelled by what their documentation says of the calls the source makes:
  \<^item> the network is a parameter \<open>net\<close>, answering a request with a response or with
    nothing (the connection failed);
  \<^item> \<open>Response.raise_for_status\<close> raises \<open>HTTPError\<close> for the statuses 400 to 599;
  \<^item> \<open>Response.json\<close> returns the decoded body or raises \<open>JSONDecodeError\<close>;
  \<^item> a data frame is a list of column names and a list of rows, every row pairing
    each column name with a cell;
  \<^item> \<open>pandas.to_datetime\<close> with a unit yields timestamps counted in nanoseconds in a
    signed 64-bit integer, and raises \<open>OutOfBoundsDatetime\<close> beyond that range;
  \<^item> \<open>sort_values\<close> with \<open>ascending=False\<close> yields the rows in non-increasing key
    order. The order among equal keys is the one of a stable sort; pandas' default
    algorithm promises none, and no theorem below depends on it.

  Payloads that are not arrays of JSON objects, and time cells that are not JSON
  integers (pandas coerces those through floating point), are outside the model:
  the embedding stops there with \<open>Unmodelled\<close>, and no theorem below speaks of that
  value other than as a failure of the call.
\<close>

subsection \<open>JSON values, responses and errors\<close>

text \<open>
  A decoded JSON value, as \<open>json.loads\<close> builds it. An object is the Python
  dictionary in insertion order. A finite float \<open>m * 2^e\<close> is carried as
  \<open>JFloat m e\<close>; the client never computes on one.
\<close>

datatype json =
    JNull
  | JBool bool
  | JInt int
  | JFloat int int
  | JStr string
  | JArr "json list"
  | JObj "(string \<times> json) list"

record http_request =
  url :: string
  req_headers :: "(string \<times> string) list"
  params :: "(string \<times> json) list"

text \<open>\<open>body\<close> is \<open>None\<close> when the body does not decode as JSON.\<close>

record http_response =
  status_code :: int
  reason :: string
  body :: "json option"

datatype error =
    HTTPError http_response
  | ConnectionError
  | JSONDecodeError
  | KeyError string
  | TypeError
  | AttributeError
  | IndexError
  | OutOfBoundsDatetime
  | Unmodelled

text \<open>What \<open>print\<close> writes, one value per call.\<close>

datatype printed_line =
    HttpErrorLine int string
  | ErrorDetails json
  | NoDetails
  | FetchError string http_response

definition and_then :: "error + 'a \<Rightarrow> ('a \<Rightarrow> error + 'b) \<Rightarrow> error + 'b" where
  "and_then r f = (case r of Inl e \<Rightarrow> Inl e | Inr x \<Rightarrow> f x)"

subsection \<open>Python's operations on decoded JSON\<close>

text \<open>\<open>x[k]\<close> for a string key \<open>k\<close>.\<close>

fun getitem :: "json \<Rightarrow> string \<Rightarrow> error + json" where
  "getitem (JObj kvs) k = (case map_of kvs k of None \<Rightarrow> Inl (KeyError k) | Some v \<Rightarrow> Inr v)"
| "getitem _ k = Inl TypeError"

text \<open>\<open>x.items()\<close>.\<close>

fun items :: "json \<Rightarrow> error + (string \<times> json) list" where
  "items (JObj kvs) = Inr kvs"
| "items _ = Inl AttributeError"

text \<open>\<open>for item in x\<close>: a list gives its elements, a dictionary its keys, a string
  its characters; nothing else is iterable.\<close>

fun iterate :: "json \<Rightarrow> error + json list" where
  "iterate (JArr xs) = Inr xs"
| "iterate (JObj kvs) = Inr (map (\<lambda>kv. JStr (fst kv)) kvs)"
| "iterate (JStr s) = Inr (map (\<lambda>c. JStr [c]) s)"
| "iterate _ = Inl TypeError"

text \<open>\<open>str.upper\<close> on the ASCII letters, the alphabet of asset symbols; every other
  byte is unchanged.\<close>

definition upper_char :: "char \<Rightarrow> char" where
  "upper_char c =
     (let n = (of_char c :: nat) in if 97 \<le> n \<and> n \<le> 122 then char_of (n - 32) else c)"

definition upper :: "string \<Rightarrow> string" where
  "upper s = map upper_char s"

text \<open>\<open>x.upper()\<close>: only a string has the method.\<close>

fun str_upper :: "json \<Rightarrow> error + string" where
  "str_upper (JStr s) = Inr (upper s)"
| "str_upper _ = Inl AttributeError"

subsection \<open>The client and the transport\<close>

record client =
  api_key :: string
  base_url :: string
  headers :: "(string \<times> string) list"

text \<open>The client object together with what the program has sent and printed.\<close>

record state =
  self :: client
  requests_sent :: "http_request list"
  printed :: "printed_line list"

text \<open>\<open>_get_headers\<close> and \<open>__init__\<close>.\<close>

definition get_headers :: "string \<Rightarrow> (string \<times> string) list" where
  "get_headers key = [(''accept'', ''application/json''), (''coinglassSecret'', key)]"

definition CoinGlassAPI :: "string \<Rightarrow> client" where
  "CoinGlassAPI key =
     \<lparr>api_key = key, base_url = ''https://open-api.coinglass.com'', headers = get_headers key\<rparr>"

definition print :: "printed_line \<Rightarrow> state \<Rightarrow> state" where
  "print line st = st\<lparr>printed := printed st @ [line]\<rparr>"

definition raises_for_status :: "http_response \<Rightarrow> bool" where
  "raises_for_status response = (400 \<le> status_code response \<and> status_code response < 600)"

text \<open>\<open>_request\<close>.\<close>

definition request ::
  "(http_request \<Rightarrow> http_response option) \<Rightarrow> string \<Rightarrow> (string \<times> json) list \<Rightarrow> state
     \<Rightarrow> (error + json) \<times> state" where
  "request net endpoint ps st =
     (let req = \<lparr>url = base_url (self st) @ endpoint,
                 req_headers = headers (self st), params = ps\<rparr>;
          st1 = st\<lparr>requests_sent := requests_sent st @ [req]\<rparr>
      in case net req of
           None \<Rightarrow> (Inl ConnectionError, st1)
         | Some response \<Rightarrow>
             if raises_for_status response then
               (let st2 = print (HttpErrorLine (status_code response) (reason response)) st1;
                    st3 = (case body response of
                             Some error_details \<Rightarrow> print (ErrorDetails error_details) st2
                           | None \<Rightarrow> print NoDetails st2)
                in (Inl (HTTPError response), st3))
             else (case body response of
                     None \<Rightarrow> (Inl JSONDecodeError, st1)
                   | Some js \<Rightarrow> (Inr js, st1)))"

subsection \<open>The instrument resolver\<close>

record instrument_ref =
  exchange :: string
  instrumentId :: json

text \<open>The inner loop of \<open>get_available_pairs\<close>, over the instruments of one
  exchange; \<open>pairs\<close> is the list being appended to.\<close>

fun scan_instruments ::
  "string \<Rightarrow> string \<Rightarrow> json list \<Rightarrow> instrument_ref list \<Rightarrow> error + instrument_ref list" where
  "scan_instruments coin ex [] pairs = Inr pairs"
| "scan_instruments coin ex (item # rest) pairs =
     and_then (getitem item ''baseAsset'') (\<lambda>b.
     and_then (str_upper b) (\<lambda>bu.
     and_then (getitem item ''quoteAsset'') (\<lambda>q.
     and_then (str_upper q) (\<lambda>qu.
       if upper coin \<in> set [bu, qu] then
         and_then (getitem item ''instrumentId'') (\<lambda>i.
           scan_instruments coin ex rest (pairs @ [\<lparr>exchange = ex, instrumentId = i\<rparr>]))
       else scan_instruments coin ex rest pairs))))"

text \<open>The outer loop, over the entries of \<open>data["data"].items()\<close>.\<close>

fun scan_exchanges ::
  "string \<Rightarrow> (string \<times> json) list \<Rightarrow> instrument_ref list \<Rightarrow> error + instrument_ref list" where
  "scan_exchanges coin [] pairs = Inr pairs"
| "scan_exchanges coin (entry # rest) pairs =
     and_then (iterate (snd entry)) (\<lambda>instruments.
     and_then (scan_instruments coin (fst entry) instruments pairs) (\<lambda>pairs'.
       scan_exchanges coin rest pairs'))"

text \<open>\<open>get_available_pairs\<close>; the returned frame is the list \<open>pairs\<close>, row by row.\<close>

definition get_available_pairs ::
  "(http_request \<Rightarrow> http_response option) \<Rightarrow> string \<Rightarrow> state
     \<Rightarrow> (error + instrument_ref list) \<times> state" where
  "get_available_pairs net coin st =
     (case request net ''/public/v2/instrument'' [(''symbol'', JStr coin)] st of
        (Inl e, st1) \<Rightarrow> (Inl e, st1)
      | (Inr data, st1) \<Rightarrow>
          (and_then (getitem data ''data'') (\<lambda>d.
           and_then (items d) (\<lambda>entries. scan_exchanges coin entries [])), st1))"

subsection \<open>Data frames\<close>

text \<open>A cell holds a decoded JSON scalar, the filler for a missing value, a
  timestamp (nanoseconds since the epoch) or a calendar date (days since the epoch).\<close>

datatype cell = Obj json | NaN | Timestamp int | Date int

type_synonym row = "(string \<times> cell) list"

record dataframe =
  columns :: "string list"
  rows :: "row list"

definition records_of :: "json \<Rightarrow> (string \<times> json) list list option" where
  "records_of d =
     (case d of
        JArr xs \<Rightarrow>
          if list_all (\<lambda>x. case x of JObj _ \<Rightarrow> True | _ \<Rightarrow> False) xs
          then Some (map (\<lambda>x. case x of JObj kvs \<Rightarrow> kvs | _ \<Rightarrow> []) xs)
          else None
      | _ \<Rightarrow> None)"

definition cell_of :: "json option \<Rightarrow> cell" where
  "cell_of v = (case v of None \<Rightarrow> NaN | Some j \<Rightarrow> Obj j)"

definition frame_row :: "string list \<Rightarrow> (string \<times> json) list \<Rightarrow> row" where
  "frame_row cols r = map (\<lambda>c. (c, cell_of (map_of r c))) cols"

text \<open>The keys of the records in the order of their first appearance.\<close>

definition first_seen :: "string list \<Rightarrow> string list" where
  "first_seen ks = fold (\<lambda>k acc. if k \<in> set acc then acc else acc @ [k]) ks []"

text \<open>\<open>pd.DataFrame(data)\<close> and \<open>pd.DataFrame(data, columns=cols)\<close>.\<close>

definition DataFrame :: "json \<Rightarrow> error + dataframe" where
  "DataFrame d =
     (case records_of d of
        None \<Rightarrow> Inl Unmodelled
      | Some recs \<Rightarrow>
          (let cols = first_seen (concat (map (map fst) recs))
           in Inr \<lparr>columns = cols, rows = map (frame_row cols) recs\<rparr>))"

definition DataFrame_columns :: "json \<Rightarrow> string list \<Rightarrow> error + dataframe" where
  "DataFrame_columns d cols =
     (case records_of d of
        None \<Rightarrow> Inl Unmodelled
      | Some recs \<Rightarrow> Inr \<lparr>columns = cols, rows = map (frame_row cols) recs\<rparr>)"

text \<open>\<open>df[col]\<close>, read.\<close>

definition getcol :: "dataframe \<Rightarrow> string \<Rightarrow> error + cell list" where
  "getcol df col =
     (if col \<in> set (columns df)
      then Inr (map (\<lambda>r. case map_of r col of Some c \<Rightarrow> c | None \<Rightarrow> NaN) (rows df))
      else Inl (KeyError col))"

text \<open>\<open>df[col] = values\<close> for a column that exists.\<close>

definition setcol :: "dataframe \<Rightarrow> string \<Rightarrow> cell list \<Rightarrow> dataframe" where
  "setcol df col vals =
     df\<lparr>rows := map (\<lambda>(r, v). map (\<lambda>(k, x). if k = col then (k, v) else (k, x)) r)
                     (zip (rows df) vals)\<rparr>"

datatype time_unit = Seconds | Millis

fun ns_per :: "time_unit \<Rightarrow> int" where
  "ns_per Seconds = 1000000000"
| "ns_per Millis = 1000000"

text \<open>One cell of \<open>pd.to_datetime(column, unit=u)\<close>: the count of nanoseconds.\<close>

fun decode_time :: "time_unit \<Rightarrow> cell \<Rightarrow> error + int" where
  "decode_time u (Obj (JInt t)) =
     (let ns = t * ns_per u
      in if - (2 ^ 63) < ns \<and> ns < 2 ^ 63 then Inr ns else Inl OutOfBoundsDatetime)"
| "decode_time u _ = Inl Unmodelled"

fun to_datetime :: "time_unit \<Rightarrow> cell list \<Rightarrow> error + int list" where
  "to_datetime u [] = Inr []"
| "to_datetime u (c # cs) =
     and_then (decode_time u c) (\<lambda>n.
     and_then (to_datetime u cs) (\<lambda>ns. Inr (n # ns)))"

text \<open>\<open>.dt.date\<close>: the calendar day of a timestamp.\<close>

definition dt_date :: "int \<Rightarrow> int" where
  "dt_date ns = ns div 86400000000000"

text \<open>The sort key of a row: the number behind the time cell of column \<open>col\<close>.\<close>

definition row_time :: "string \<Rightarrow> row \<Rightarrow> int option" where
  "row_time col r =
     (case map_of r col of
        Some (Timestamp n) \<Rightarrow> Some n
      | Some (Date d) \<Rightarrow> Some d
      | _ \<Rightarrow> None)"

fun those_keys :: "string \<Rightarrow> row list \<Rightarrow> int list option" where
  "those_keys col [] = Some []"
| "those_keys col (r # rs) =
     (case row_time col r of
        None \<Rightarrow> None
      | Some k \<Rightarrow> (case those_keys col rs of None \<Rightarrow> None | Some ks \<Rightarrow> Some (k # ks)))"

text \<open>\<open>df.sort_values(col, ascending=False)\<close>: pandas reverses the rows, sorts them
  in ascending order and reverses the result.\<close>

definition sort_values :: "dataframe \<Rightarrow> string \<Rightarrow> error + dataframe" where
  "sort_values df col =
     (if col \<notin> set (columns df) then Inl (KeyError col)
      else case those_keys col (rows df) of
             None \<Rightarrow> Inl Unmodelled
           | Some ks \<Rightarrow>
               Inr (df\<lparr>rows := map snd (rev (sort_key fst (rev (zip ks (rows df)))))\<rparr>))"

subsection \<open>The fetch methods\<close>

text \<open>The handler \<open>except requests.exceptions.HTTPError as err: print(...); raise\<close>
  around a \<open>try\<close> block: it prints and raises the same error again; every other
  error passes it untouched.\<close>

definition except_HTTPError :: "string \<Rightarrow> (error + 'a) \<times> state \<Rightarrow> (error + 'a) \<times> state" where
  "except_HTTPError msg r =
     (case fst r of
        Inl (HTTPError response) \<Rightarrow> (fst r, print (FetchError msg response) (snd r))
      | _ \<Rightarrow> r)"

text \<open>The lines of each \<open>try\<close> block after the request.\<close>

definition oi_frame :: "json \<Rightarrow> error + dataframe" where
  "oi_frame req =
     and_then (getitem req ''data'') (\<lambda>d.
     and_then (DataFrame d) (\<lambda>df.
     and_then (getcol df ''t'') (\<lambda>col.
     and_then (to_datetime Millis col) (\<lambda>ts.
       sort_values (setcol df ''t'' (map (\<lambda>n. Date (dt_date n)) ts)) ''t''))))"

definition price_frame :: "json \<Rightarrow> error + dataframe" where
  "price_frame req =
     and_then (getitem req ''data'') (\<lambda>d.
     and_then (DataFrame_columns d [''t'', ''o'', ''h'', ''l'', ''c'', ''v'']) (\<lambda>df.
     and_then (getcol df ''t'') (\<lambda>col.
     and_then (to_datetime Seconds col) (\<lambda>ts.
       sort_values (setcol df ''t'' (map (\<lambda>n. Date (dt_date n)) ts)) ''t''))))"

definition createTime_frame :: "json \<Rightarrow> error + dataframe" where
  "createTime_frame req =
     and_then (getitem req ''data'') (\<lambda>d.
     and_then (DataFrame d) (\<lambda>df.
     and_then (getcol df ''createTime'') (\<lambda>col.
     and_then (to_datetime Millis col) (\<lambda>ts.
       sort_values (setcol df ''createTime'' (map Timestamp ts)) ''createTime''))))"

definition try_frame ::
  "(json \<Rightarrow> error + dataframe) \<Rightarrow> (error + json) \<times> state \<Rightarrow> (error + dataframe) \<times> state" where
  "try_frame frame r =
     (case r of (Inl e, st1) \<Rightarrow> (Inl e, st1) | (Inr req, st1) \<Rightarrow> (frame req, st1))"

definition fetch_ohlc_oi_data ::
  "(http_request \<Rightarrow> http_response option) \<Rightarrow> string \<Rightarrow> string \<Rightarrow> state
     \<Rightarrow> (error + dataframe) \<times> state" where
  "fetch_ohlc_oi_data net ex pair st =
     except_HTTPError ''HTTP error occurred: ''
       (try_frame oi_frame
          (request net ''/public/v2/indicator/open_interest_ohlc''
             [(''ex'', JStr ex), (''pair'', JStr pair),
              (''interval'', JStr ''h24''), (''limit'', JInt 50)] st))"

definition fetch_price_ohlc_data ::
  "(http_request \<Rightarrow> http_response option) \<Rightarrow> string \<Rightarrow> string \<Rightarrow> string \<Rightarrow> int \<Rightarrow> state
     \<Rightarrow> (error + dataframe) \<times> state" where
  "fetch_price_ohlc_data net ex pair interval limit st =
     except_HTTPError ''HTTP error occurred: ''
       (try_frame price_frame
          (request net ''/public/v2/indicator/price_ohlc''
             [(''ex'', JStr ex), (''pair'', JStr pair),
              (''interval'', JStr interval), (''limit'', JInt limit)] st))"

definition fetch_top_long_short_ratio ::
  "(http_request \<Rightarrow> http_response option) \<Rightarrow> string \<Rightarrow> string \<Rightarrow> string \<Rightarrow> int \<Rightarrow> state
     \<Rightarrow> (error + dataframe) \<times> state" where
  "fetch_top_long_short_ratio net ex pair interval limit st =
     except_HTTPError ''HTTP error occured: ''
       (try_frame createTime_frame
          (request net ''/public/v2/indicator/top_long_short_account_ratio''
             [(''ex'', JStr ex), (''pair'', JStr pair),
              (''interval'', JStr interval), (''limit'', JInt limit)] st))"

definition fetch_top_long_short_position_ratio ::
  "(http_request \<Rightarrow> http_response option) \<Rightarrow> string \<Rightarrow> string \<Rightarrow> string \<Rightarrow> int \<Rightarrow> state
     \<Rightarrow> (error + dataframe) \<times> state" where
  "fetch_top_long_short_position_ratio net ex pair interval limit st =
     except_HTTPError ''HTTP error occured: ''
       (try_frame createTime_frame
          (request net ''/public/v2/indicator/top_long_short_position_ratio''
             [(''ex'', JStr ex), (''pair'', JStr pair),
              (''interval'', JStr interval), (''limit'', JInt limit)] st))"

definition fetch_top_long_short_loser ::
  "(http_request \<Rightarrow> http_response option) \<Rightarrow> string \<Rightarrow> string \<Rightarrow> string \<Rightarrow> int \<Rightarrow> state
     \<Rightarrow> (error + dataframe) \<times> state" where
  "fetch_top_long_short_loser net ex pair interval limit st =
     except_HTTPError ''HTTP error occured: ''
       (try_frame createTime_frame
          (request net ''/public/v2/indicator/long_short_accounts''
             [(''ex'', JStr ex), (''pair'', JStr pair),
              (''interval'', JStr interval), (''limit'', JInt limit)] st))"

subsection \<open>The latest values read by \<open>main\<close>\<close>

text \<open>\<open>df.iloc[i]\<close>: a negative index counts from the end, and an index outside
  the frame raises.\<close>

definition iloc :: "dataframe \<Rightarrow> int \<Rightarrow> error + row" where
  "iloc df i =
     (let n = int (length (rows df))
      in if 0 \<le> i \<and> i < n then Inr (rows df ! nat i)
         else if - n \<le> i \<and> i < 0 then Inr (rows df ! nat (n + i))
         else Inl IndexError)"

text \<open>\<open>row[k]\<close> on a row of a frame.\<close>

definition row_get :: "row \<Rightarrow> string \<Rightarrow> error + cell" where
  "row_get r k = (case map_of r k of None \<Rightarrow> Inl (KeyError k) | Some c \<Rightarrow> Inr c)"

definition bind_st ::
  "(error + 'a) \<times> state \<Rightarrow> ('a \<Rightarrow> state \<Rightarrow> (error + 'b) \<times> state) \<Rightarrow> (error + 'b) \<times> state" where
  "bind_st r f = (case r of (Inl e, st) \<Rightarrow> (Inl e, st) | (Inr x, st) \<Rightarrow> f x st)"

record metrics =
  latest_oi :: cell
  latest_close :: cell
  top_accounts :: "cell \<times> cell"
  top_positions :: "cell \<times> cell"
  all_accounts :: "cell \<times> cell"

text \<open>The branch of \<open>main\<close> under \<open>st.button("Fetch Data")\<close>, in the order of its
  statements: the five fetches and the values read from their frames. The widget
  and chart calls between them belong to the presentation layer and are left out.\<close>

definition fetch_data ::
  "(http_request \<Rightarrow> http_response option) \<Rightarrow> string \<Rightarrow> string \<Rightarrow> state
     \<Rightarrow> (error + metrics) \<times> state" where
  "fetch_data net selected_exchange selected_pair st0 =
     bind_st (fetch_ohlc_oi_data net selected_exchange selected_pair st0) (\<lambda>ohlc_oi_data st.
     bind_st (and_then (iloc ohlc_oi_data (- 1)) (\<lambda>r. row_get r ''c''), st) (\<lambda>oi st.
     bind_st (fetch_price_ohlc_data net selected_exchange selected_pair ''h24'' 50 st)
       (\<lambda>price_ohlc_data st.
     bind_st (and_then (iloc price_ohlc_data 0) (\<lambda>r. row_get r ''c''), st) (\<lambda>close st.
     bind_st (fetch_top_long_short_ratio net selected_exchange selected_pair ''h24'' 50 st)
       (\<lambda>long_short_data st.
     bind_st (and_then (iloc long_short_data 0) (\<lambda>r. row_get r ''longRatio''), st) (\<lambda>acc_long st.
     bind_st (and_then (iloc long_short_data 0) (\<lambda>r. row_get r ''shortRatio''), st) (\<lambda>acc_short st.
     bind_st (fetch_top_long_short_position_ratio net selected_exchange selected_pair ''h24'' 50 st)
       (\<lambda>top_traders_data st.
     bind_st (and_then (iloc top_traders_data 0) (\<lambda>r. row_get r ''longRatio''), st) (\<lambda>pos_long st.
     bind_st (and_then (iloc top_traders_data 0) (\<lambda>r. row_get r ''shortRatio''), st) (\<lambda>pos_short st.
     bind_st (fetch_top_long_short_loser net selected_exchange selected_pair ''h24'' 50 st)
       (\<lambda>L_data st.
     bind_st (and_then (iloc L_data (- 1)) (\<lambda>r. row_get r ''longRatio''), st) (\<lambda>all_long st.
     bind_st (and_then (iloc L_data (- 1)) (\<lambda>r. row_get r ''shortRatio''), st) (\<lambda>all_short st.
       (Inr \<lparr>latest_oi = oi, latest_close = close, top_accounts = (acc_long, acc_short),
             top_positions = (pos_long, pos_short),
             all_accounts = (all_long, all_short)\<rparr>, st))))))))))))))"

section \<open>Vocabulary of the statements\<close>

subsection \<open>Concrete transports and the initial state\<close>

text \<open>A transport that answers every request with the same response.\<close>

definition always :: "http_response \<Rightarrow> http_request \<Rightarrow> http_response option" where
  "always response req = Some response"

definition ok_response :: "json \<Rightarrow> http_response" where
  "ok_response js = \<lparr>status_code = 200, reason = ''OK'', body = Some js\<rparr>"

text \<open>The state right after \<open>CoinGlassAPI(api_key=key)\<close>.\<close>

definition start :: "string \<Rightarrow> state" where
  "start key = \<lparr>self = CoinGlassAPI key, requests_sent = [], printed = []\<rparr>"

definition too_many_requests :: http_response where
  "too_many_requests = \<lparr>status_code = 429, reason = ''Too Many Requests'', body = None\<rparr>"

definition server_error :: http_response where
  "server_error = \<lparr>status_code = 500, reason = ''Internal Server Error'', body = None\<rparr>"

text \<open>A response outside 2xx that \<open>raise_for_status\<close> lets pass, with a JSON body.\<close>

definition multiple_choices :: http_response where
  "multiple_choices =
     \<lparr>status_code = 300, reason = ''Multiple Choices'',
      body = Some (JObj [(''data'',
               JArr [JObj [(''t'', JInt 1000), (''o'', JInt 1), (''h'', JInt 2),
                           (''l'', JFloat 1 (- 1)), (''c'', JFloat 3 (- 1)),
                           (''v'', JInt 100)]])])\<rparr>"

subsection \<open>Instrument catalogs\<close>

text \<open>An instrument descriptor as the provider's contract types it, and the JSON
  values that carry one: an object whose three keys hold the descriptor's values,
  in any position and beside any other keys.\<close>

record descriptor =
  baseAsset :: string
  quoteAsset :: string
  descriptor_id :: json

definition describes :: "descriptor \<Rightarrow> json \<Rightarrow> bool" where
  "describes d item =
     (getitem item ''baseAsset'' = Inr (JStr (baseAsset d)) \<and>
      getitem item ''quoteAsset'' = Inr (JStr (quoteAsset d)) \<and>
      getitem item ''instrumentId'' = Inr (descriptor_id d))"

definition entry_of :: "string \<times> descriptor list \<Rightarrow> string \<times> json \<Rightarrow> bool" where
  "entry_of e kv =
     (fst kv = fst e \<and>
      (case snd kv of JArr its \<Rightarrow> list_all2 describes (snd e) its | _ \<Rightarrow> False))"

text \<open>\<open>catalog cat d\<close>: the JSON value \<open>d\<close> is the catalog \<open>cat\<close>, a mapping from
  exchange names to lists of descriptors.\<close>

definition catalog :: "(string \<times> descriptor list) list \<Rightarrow> json \<Rightarrow> bool" where
  "catalog cat d = (case d of JObj kvs \<Rightarrow> list_all2 entry_of cat kvs | _ \<Rightarrow> False)"

text \<open>The selection rule: the uppercased coin symbol equals the uppercased base
  asset or the uppercased quote asset.\<close>

definition matches :: "string \<Rightarrow> descriptor \<Rightarrow> bool" where
  "matches coin d = (upper coin = upper (baseAsset d) \<or> upper coin = upper (quoteAsset d))"

definition ref :: "string \<Rightarrow> descriptor \<Rightarrow> instrument_ref" where
  "ref ex d = \<lparr>exchange = ex, instrumentId = descriptor_id d\<rparr>"

text \<open>The matching instruments of a catalog, in the order of the payload.\<close>

definition selected :: "string \<Rightarrow> (string \<times> descriptor list) list \<Rightarrow> instrument_ref list" where
  "selected coin cat =
     concat (map (\<lambda>e. map (ref (fst e)) (filter (matches coin) (snd e))) cat)"

definition example_catalog :: json where
  "example_catalog =
     JObj [(''data'',
       JObj [(''Binance'',
                JArr [JObj [(''baseAsset'', JStr ''BTC''), (''quoteAsset'', JStr ''USDT''),
                            (''instrumentId'', JStr ''BTCUSDT'')]]),
             (''OKX'',
                JArr [JObj [(''baseAsset'', JStr ''ETH''), (''quoteAsset'', JStr ''USDT''),
                            (''instrumentId'', JStr ''ETHUSDT'')]])])]"

definition example_descriptors :: "(string \<times> descriptor list) list" where
  "example_descriptors =
     [(''Binance'', [\<lparr>baseAsset = ''BTC'', quoteAsset = ''USDT'',
                       descriptor_id = JStr ''BTCUSDT''\<rparr>]),
      (''OKX'', [\<lparr>baseAsset = ''ETH'', quoteAsset = ''USDT'',
                   descriptor_id = JStr ''ETHUSDT''\<rparr>])]"

subsection \<open>Time series\<close>

text \<open>The rows of a frame are in non-increasing order of the time in column \<open>col\<close>:
  for positions \<open>i < j\<close> the time at \<open>i\<close> is at least the time at \<open>j\<close>.\<close>

definition non_increasing :: "string \<Rightarrow> dataframe \<Rightarrow> bool" where
  "non_increasing col df =
     (\<forall>i j. i < j \<and> j < length (rows df) \<longrightarrow>
        (\<exists>a b. row_time col (rows df ! i) = Some a \<and>
               row_time col (rows df ! j) = Some b \<and> b \<le> a))"

text \<open>A payload that serves every indicator endpoint: two records, the older first.\<close>

definition example_series :: json where
  "example_series =
     JObj [(''data'',
       JArr [JObj [(''t'', JInt 86400000), (''createTime'', JInt 1000), (''c'', JInt 1),
                   (''longRatio'', JInt 60), (''shortRatio'', JInt 40)],
             JObj [(''t'', JInt 172800000), (''createTime'', JInt 2000), (''c'', JInt 2),
                   (''longRatio'', JInt 55), (''shortRatio'', JInt 45)]])]"

definition example_oi_frame :: dataframe where
  "example_oi_frame =
     \<lparr>columns = [''t'', ''createTime'', ''c'', ''longRatio'', ''shortRatio''],
      rows = [[(''t'', Date 2), (''createTime'', Obj (JInt 2000)), (''c'', Obj (JInt 2)),
               (''longRatio'', Obj (JInt 55)), (''shortRatio'', Obj (JInt 45))],
              [(''t'', Date 1), (''createTime'', Obj (JInt 1000)), (''c'', Obj (JInt 1)),
               (''longRatio'', Obj (JInt 60)), (''shortRatio'', Obj (JInt 40))]]\<rparr>"

definition example_price_frame :: dataframe where
  "example_price_frame =
     \<lparr>columns = [''t'', ''o'', ''h'', ''l'', ''c'', ''v''],
      rows = [[(''t'', Date 2000), (''o'', NaN), (''h'', NaN), (''l'', NaN),
               (''c'', Obj (JInt 2)), (''v'', NaN)],
              [(''t'', Date 1000), (''o'', NaN), (''h'', NaN), (''l'', NaN),
               (''c'', Obj (JInt 1)), (''v'', NaN)]]\<rparr>"

definition example_ratio_frame :: dataframe where
  "example_ratio_frame =
     \<lparr>columns = [''t'', ''createTime'', ''c'', ''longRatio'', ''shortRatio''],
      rows = [[(''t'', Obj (JInt 172800000)), (''createTime'', Timestamp 2000000000),
               (''c'', Obj (JInt 2)), (''longRatio'', Obj (JInt 55)),
               (''shortRatio'', Obj (JInt 45))],
              [(''t'', Obj (JInt 86400000)), (''createTime'', Timestamp 1000000000),
               (''c'', Obj (JInt 1)), (''longRatio'', Obj (JInt 60)),
               (''shortRatio'', Obj (JInt 40))]]\<rparr>"

subsection \<open>Price points\<close>

text \<open>An epoch count \<open>t\<close> in unit \<open>u\<close> is representable when its nanoseconds fit a
  signed 64-bit integer.\<close>

definition representable :: "time_unit \<Rightarrow> int \<Rightarrow> bool" where
  "representable u t = (- (2 ^ 63) < t * ns_per u \<and> t * ns_per u < 2 ^ 63)"

text \<open>The point made from a raw record whose \<open>t\<close> is the integer \<open>t\<close>: the six fields
  in their fixed order, the time as the calendar day of \<open>t\<close> seconds, every other
  field as the record has it, a missing one as \<open>NaN\<close>.\<close>

definition price_point :: "int \<Rightarrow> (string \<times> json) list \<Rightarrow> row" where
  "price_point t r =
     [(''t'', Date (t div 86400)), (''o'', cell_of (map_of r ''o'')),
      (''h'', cell_of (map_of r ''h'')), (''l'', cell_of (map_of r ''l'')),
      (''c'', cell_of (map_of r ''c'')), (''v'', cell_of (map_of r ''v''))]"

definition price_row :: "(string \<times> json) list \<Rightarrow> row option" where
  "price_row r = (case map_of r ''t'' of Some (JInt t) \<Rightarrow> Some (price_point t r) | _ \<Rightarrow> None)"

text \<open>Two raw records: the second has its keys in another order and a seventh key.\<close>

definition price_payload :: json where
  "price_payload =
     JObj [(''data'',
       JArr (map JObj
         [[(''t'', JInt 86400), (''o'', JInt 1), (''h'', JInt 2), (''l'', JFloat 1 (- 1)),
           (''c'', JFloat 3 (- 1)), (''v'', JInt 100)],
          [(''v'', JInt 200), (''exchangeName'', JStr ''Binance''), (''t'', JInt 172800),
           (''o'', JFloat 3 (- 1)), (''h'', JFloat 5 (- 1)), (''l'', JInt 1),
           (''c'', JInt 2)]]))]"

definition price_result :: dataframe where
  "price_result =
     \<lparr>columns = [''t'', ''o'', ''h'', ''l'', ''c'', ''v''],
      rows = [[(''t'', Date 2), (''o'', Obj (JFloat 3 (- 1))), (''h'', Obj (JFloat 5 (- 1))),
               (''l'', Obj (JInt 1)), (''c'', Obj (JInt 2)), (''v'', Obj (JInt 200))],
              [(''t'', Date 1), (''o'', Obj (JInt 1)), (''h'', Obj (JInt 2)),
               (''l'', Obj (JFloat 1 (- 1))), (''c'', Obj (JFloat 3 (- 1))),
               (''v'', Obj (JInt 100))]]\<rparr>"

subsection \<open>Re-encoding a decoded time\<close>

text \<open>Modelled from the spec: the re-encoding of a decoded timestamp to epoch
  milliseconds, which the source does not have. The specification names it in its
  round-trip property; a timestamp is a count of nanoseconds.\<close>

definition encode_millis :: "int \<Rightarrow> int" where
  "encode_millis ns = ns div 1000000"

text \<open>Modelled from the spec: the re-encoding of a calendar date, the instant at
  which the day begins, in epoch milliseconds.\<close>

definition date_to_millis :: "int \<Rightarrow> int" where
  "date_to_millis d = d * 86400000"

subsection \<open>The ends of a series\<close>

text \<open>A row of the frame with the least, respectively the greatest, time of all.\<close>

definition oldest :: "string \<Rightarrow> dataframe \<Rightarrow> row \<Rightarrow> bool" where
  "oldest col df r =
     (\<exists>a. row_time col r = Some a \<and> (\<forall>r'\<in>set (rows df). \<exists>b. row_time col r' = Some b \<and> a \<le> b))"

definition newest :: "string \<Rightarrow> dataframe \<Rightarrow> row \<Rightarrow> bool" where
  "newest col df r =
     (\<exists>a. row_time col r = Some a \<and> (\<forall>r'\<in>set (rows df). \<exists>b. row_time col r' = Some b \<and> b \<le> a))"

text \<open>The value \<open>v\<close> is the field \<open>k\<close> of the row at index 0, respectively at the last
  index, and that row is a newest, respectively an oldest, row of the frame.\<close>

definition read_first :: "dataframe \<Rightarrow> string \<Rightarrow> string \<Rightarrow> cell \<Rightarrow> bool" where
  "read_first df col k v =
     (rows df \<noteq> [] \<and> map_of (rows df ! 0) k = Some v \<and> newest col df (rows df ! 0))"

definition read_last :: "dataframe \<Rightarrow> string \<Rightarrow> string \<Rightarrow> cell \<Rightarrow> bool" where
  "read_last df col k v =
     (rows df \<noteq> [] \<and> map_of (rows df ! (length (rows df) - 1)) k = Some v \<and>
      oldest col df (rows df ! (length (rows df) - 1)))"

text \<open>What \<open>main\<close> reads from the frames of \<open>example_series\<close>.\<close>

definition example_metrics :: metrics where
  "example_metrics =
     \<lparr>latest_oi = Obj (JInt 1), latest_close = Obj (JInt 2),
      top_accounts = (Obj (JInt 55), Obj (JInt 45)),
      top_positions = (Obj (JInt 55), Obj (JInt 45)),
      all_accounts = (Obj (JInt 60), Obj (JInt 40))\<rparr>"

section \<open>Basic facts\<close>

lemma and_then_Inl [simp]: "and_then (Inl e) f = Inl e"
  by (simp add: and_then_def)

lemma and_then_Inr [simp]: "and_then (Inr x) f = f x"
  by (simp add: and_then_def)

lemma and_then_eq_Inr: "and_then r f = Inr y \<longleftrightarrow> (\<exists>x. r = Inr x \<and> f x = Inr y)"
  by (cases r) simp_all

lemma self_print [simp]: "self (print line st) = self st"
  by (simp add: print_def)

lemma requests_sent_print [simp]: "requests_sent (print line st) = requests_sent st"
  by (simp add: print_def)

lemma self_request: "self (snd (request net endpoint ps st)) = self st"
  by (simp add: request_def Let_def split: option.splits)

lemma sent_request:
  "requests_sent (snd (request net endpoint ps st)) =
     requests_sent st @ [\<lparr>url = base_url (self st) @ endpoint,
                          req_headers = headers (self st), params = ps\<rparr>]"
  by (simp add: request_def Let_def split: option.splits)

lemma snd_try_frame [simp]: "snd (try_frame frame r) = snd r"
  by (simp add: try_frame_def split: prod.splits sum.splits)

lemma fst_except_HTTPError [simp]: "fst (except_HTTPError msg r) = fst r"
  by (simp add: except_HTTPError_def split: sum.splits error.splits)

lemma self_except_HTTPError [simp]: "self (snd (except_HTTPError msg r)) = self (snd r)"
  by (simp add: except_HTTPError_def split: sum.splits error.splits)

lemma sent_except_HTTPError [simp]:
  "requests_sent (snd (except_HTTPError msg r)) = requests_sent (snd r)"
  by (simp add: except_HTTPError_def split: sum.splits error.splits)

lemma fst_try_frame_Inl: "fst r = Inl e \<Longrightarrow> fst (try_frame frame r) = Inl e"
  by (cases r) (simp add: try_frame_def)

lemma fst_try_frame_Inr: "fst r = Inr req \<Longrightarrow> fst (try_frame frame r) = frame req"
  by (cases r) (simp add: try_frame_def)

lemma request_ok:
  assumes "net \<lparr>url = base_url (self st) @ endpoint, req_headers = headers (self st),
                 params = ps\<rparr> = Some response"
    and "\<not> raises_for_status response" and "body response = Some payload"
  shows "fst (request net endpoint ps st) = Inr payload"
  using assms by (simp add: request_def Let_def)

lemma request_raises:
  assumes "net \<lparr>url = base_url (self st) @ endpoint, req_headers = headers (self st),
                 params = ps\<rparr> = Some response"
    and "raises_for_status response"
  shows "fst (request net endpoint ps st) = Inl (HTTPError response)"
  using assms by (simp add: request_def Let_def)

section \<open>The instrument resolver\<close>

lemma scan_instruments_catalog:
  "list_all2 describes ds its \<Longrightarrow>
   scan_instruments coin ex its pairs = Inr (pairs @ map (ref ex) (filter (matches coin) ds))"
proof (induction ds its arbitrary: pairs rule: list_all2_induct)
  case Nil
  then show ?case by simp
next
  case (Cons d ds item its)
  then show ?case
    by (auto simp: describes_def matches_def ref_def)
qed

lemma scan_exchanges_catalog:
  "list_all2 entry_of cat kvs \<Longrightarrow>
   scan_exchanges coin kvs pairs = Inr (pairs @ selected coin cat)"
proof (induction cat kvs arbitrary: pairs rule: list_all2_induct)
  case Nil
  then show ?case by (simp add: selected_def)
next
  case (Cons e cat kv kvs)
  from Cons.hyps(1) obtain its where its: "snd kv = JArr its" "list_all2 describes (snd e) its"
    and ex: "fst kv = fst e"
    by (auto simp: entry_of_def split: json.splits)
  show ?case
    using Cons.IH its ex
    by (simp add: scan_instruments_catalog selected_def)
qed

lemma get_available_pairs_catalog:
  assumes "net \<lparr>url = base_url (self st) @ ''/public/v2/instrument'',
                 req_headers = headers (self st),
                 params = [(''symbol'', JStr coin)]\<rparr> = Some response"
    and "\<not> raises_for_status response" and "body response = Some payload"
    and "getitem payload ''data'' = Inr d" and "catalog cat d"
  shows "fst (get_available_pairs net coin st) = Inr (selected coin cat)"
proof -
  from assms(5) obtain kvs where d: "d = JObj kvs" and kvs: "list_all2 entry_of cat kvs"
    by (auto simp: catalog_def split: json.splits)
  have "fst (request net ''/public/v2/instrument'' [(''symbol'', JStr coin)] st) = Inr payload"
    using assms(1-3) by (simp add: request_def Let_def)
  then obtain st1
    where "request net ''/public/v2/instrument'' [(''symbol'', JStr coin)] st = (Inr payload, st1)"
    by (cases "request net ''/public/v2/instrument'' [(''symbol'', JStr coin)] st") auto
  then show ?thesis
    using assms(4) d kvs by (simp add: get_available_pairs_def scan_exchanges_catalog)
qed

lemma set_selected:
  "r \<in> set (selected coin cat) \<longleftrightarrow>
     (\<exists>e\<in>set cat. \<exists>d\<in>set (snd e). matches coin d \<and> r = ref (fst e) d)"
  by (auto simp: selected_def)

lemma example_is_catalog:
  "getitem example_catalog ''data'' = Inr d \<Longrightarrow> catalog example_descriptors d"
  by (auto simp: example_catalog_def example_descriptors_def catalog_def entry_of_def
      describes_def)





section \<open>The transport and its errors\<close>

lemma printed_request_raises:
  assumes "net \<lparr>url = base_url (self st) @ endpoint, req_headers = headers (self st),
                 params = ps\<rparr> = Some response"
    and "raises_for_status response"
  shows "printed (snd (request net endpoint ps st)) =
           printed st @ [HttpErrorLine (status_code response) (reason response),
                         (case body response of None \<Rightarrow> NoDetails
                          | Some details \<Rightarrow> ErrorDetails details)]"
  using assms by (simp add: request_def Let_def print_def split: option.splits)

lemma fetch_raises:
  assumes "fst (request net endpoint ps st) = Inl e"
  shows "fst (except_HTTPError msg (try_frame frame (request net endpoint ps st))) = Inl e"
  using assms by (simp add: fst_try_frame_Inl)






section \<open>Frame conditions\<close>

lemma self_get_available_pairs: "self (snd (get_available_pairs net coin st)) = self st"
proof -
  have "snd (get_available_pairs net coin st)
          = snd (request net ''/public/v2/instrument'' [(''symbol'', JStr coin)] st)"
    by (simp add: get_available_pairs_def split: prod.splits sum.splits)
  then show ?thesis by (simp add: self_request)
qed

text \<open>
  \<^bold>\<open>C10.\<close> \<open>get_available_pairs\<close> and the five fetch methods leave the client
  object as it was, whether they return or raise: \<open>api_key\<close>, \<open>base_url\<close> and
  \<open>headers\<close> are the fields of \<open>self\<close>.
\<close>

theorem client_unchanged:
  "self (snd (get_available_pairs net coin st)) = self st \<and>
   self (snd (fetch_ohlc_oi_data net ex pair st)) = self st \<and>
   self (snd (fetch_price_ohlc_data net ex pair interval limit st)) = self st \<and>
   self (snd (fetch_top_long_short_ratio net ex pair interval limit st)) = self st \<and>
   self (snd (fetch_top_long_short_position_ratio net ex pair interval limit st)) = self st \<and>
   self (snd (fetch_top_long_short_loser net ex pair interval limit st)) = self st"
  by (simp add: self_get_available_pairs fetch_ohlc_oi_data_def fetch_price_ohlc_data_def
      fetch_top_long_short_ratio_def fetch_top_long_short_position_ratio_def
      fetch_top_long_short_loser_def self_request)

section \<open>The query of the open-interest method\<close>

text \<open>
  \<^bold>\<open>C4, as amended.\<close> Every call of \<open>fetch_ohlc_oi_data\<close> sends exactly one request,
  to the open-interest endpoint, whose query parameters are the exchange, the pair,
  the interval fixed at \<open>h24\<close> and the limit fixed at 50: the caller can tune neither.
\<close>

theorem oi_query_parameters:
  "requests_sent (snd (fetch_ohlc_oi_data net ex pair st)) =
     requests_sent st @
       [\<lparr>url = base_url (self st) @ ''/public/v2/indicator/open_interest_ohlc'',
         req_headers = headers (self st),
         params = [(''ex'', JStr ex), (''pair'', JStr pair),
                   (''interval'', JStr ''h24''), (''limit'', JInt 50)]\<rparr>]"
  by (simp add: fetch_ohlc_oi_data_def sent_request)

text \<open>The claim as written has the interval \<open>24h\<close> and no limit among the
  parameters sent; the request of a concrete call has \<open>h24\<close> and the limit 50.\<close>

theorem oi_query_parameters_counterexample:
  "map params (requests_sent (snd (fetch_ohlc_oi_data (always (ok_response example_series))
        ''Binance'' ''BTCUSDT'' (start ''key''))))
     = [[(''ex'', JStr ''Binance''), (''pair'', JStr ''BTCUSDT''),
         (''interval'', JStr ''h24''), (''limit'', JInt 50)]] \<and>
   JStr ''h24'' \<noteq> JStr ''24h'' \<and>
   map_of [(''ex'', JStr ''Binance''), (''pair'', JStr ''BTCUSDT''),
           (''interval'', JStr ''h24''), (''limit'', JInt 50)] ''limit'' \<noteq> None"
  by (simp add: fetch_ohlc_oi_data_def sent_request start_def)

section \<open>The order of the fetched series\<close>

lemma those_keys_Some:
  "those_keys col rs = Some ks \<Longrightarrow> list_all2 (\<lambda>k r. row_time col r = Some k) ks rs"
  by (induction rs arbitrary: ks) (auto split: option.splits)

lemma sort_values_Inr:
  assumes "sort_values df col = Inr df'"
  obtains ks where "those_keys col (rows df) = Some ks"
    and "df' = df\<lparr>rows := map snd (rev (sort_key fst (rev (zip ks (rows df)))))\<rparr>"
  using assms by (auto simp: sort_values_def split: if_splits option.splits)

lemma sort_values_keys:
  assumes "sort_values df col = Inr df'"
  shows "\<exists>ks. list_all2 (\<lambda>k r. row_time col r = Some k) ks (rows df') \<and> sorted (rev ks)"
proof -
  from assms obtain ks0 where ks0: "those_keys col (rows df) = Some ks0"
    and df': "df' = df\<lparr>rows := map snd (rev (sort_key fst (rev (zip ks0 (rows df)))))\<rparr>"
    by (rule sort_values_Inr)
  define ps where "ps = rev (sort_key fst (rev (zip ks0 (rows df))))"
  have "\<forall>p\<in>set (zip ks0 (rows df)). row_time col (snd p) = Some (fst p)"
    using those_keys_Some [OF ks0] by (auto simp: list_all2_iff)
  then have "\<forall>p\<in>set ps. row_time col (snd p) = Some (fst p)"
    by (simp add: ps_def)
  then have "list_all2 (\<lambda>k r. row_time col r = Some k) (map fst ps) (map snd ps)"
    by (simp add: list_all2_map1 list_all2_map2 list_all2_same)
  moreover have "sorted (rev (map fst ps))"
    by (simp add: ps_def rev_map [symmetric])
  ultimately show ?thesis
    using df' by (auto simp: ps_def)
qed

lemma sort_values_non_increasing:
  assumes "sort_values df col = Inr df'"
  shows "non_increasing col df'"
proof -
  from sort_values_keys [OF assms] obtain ks
    where ks: "list_all2 (\<lambda>k r. row_time col r = Some k) ks (rows df')"
      and s: "sorted (rev ks)"
    by blast
  have len: "length ks = length (rows df')"
    using ks by (rule list_all2_lengthD)
  show ?thesis
    unfolding non_increasing_def
  proof (intro allI impI)
    fix i j assume ij: "i < j \<and> j < length (rows df')"
    then have "row_time col (rows df' ! i) = Some (ks ! i)"
      and "row_time col (rows df' ! j) = Some (ks ! j)"
      using ks by (auto simp: list_all2_conv_all_nth)
    moreover have "ks ! j \<le> ks ! i"
      using s ij len by (simp add: sorted_rev_iff_nth_mono)
    ultimately show "\<exists>a b. row_time col (rows df' ! i) = Some a \<and>
        row_time col (rows df' ! j) = Some b \<and> b \<le> a"
      by blast
  qed
qed

lemma try_frame_Inr:
  "fst (try_frame frame r) = Inr df \<Longrightarrow> \<exists>req. fst r = Inr req \<and> frame req = Inr df"
  by (cases r) (auto simp: try_frame_def split: sum.splits)

lemma oi_frame_sorted: "oi_frame req = Inr df \<Longrightarrow> non_increasing ''t'' df"
  by (auto simp: oi_frame_def and_then_eq_Inr dest: sort_values_non_increasing)

lemma price_frame_sorted: "price_frame req = Inr df \<Longrightarrow> non_increasing ''t'' df"
  by (auto simp: price_frame_def and_then_eq_Inr dest: sort_values_non_increasing)

lemma createTime_frame_sorted:
  "createTime_frame req = Inr df \<Longrightarrow> non_increasing ''createTime'' df"
  by (auto simp: createTime_frame_def and_then_eq_Inr dest: sort_values_non_increasing)


lemmas frame_eval =
  try_frame_def request_def always_def ok_response_def raises_for_status_def start_def
  DataFrame_def DataFrame_columns_def records_of_def first_seen_def frame_row_def cell_of_def
  getcol_def setcol_def dt_date_def sort_values_def row_time_def sort_key_def

lemma example_oi:
  "fst (fetch_ohlc_oi_data (always (ok_response example_series)) ''Binance'' ''BTCUSDT''
          (start ''key'')) = Inr example_oi_frame"
  by (simp add: fetch_ohlc_oi_data_def oi_frame_def example_series_def example_oi_frame_def
      frame_eval)

lemma example_price:
  "fst (fetch_price_ohlc_data (always (ok_response example_series)) ''Binance'' ''BTCUSDT''
          ''h24'' 50 (start ''key'')) = Inr example_price_frame"
  by (simp add: fetch_price_ohlc_data_def price_frame_def example_series_def
      example_price_frame_def frame_eval)

lemma example_createTime: "createTime_frame example_series = Inr example_ratio_frame"
  by (simp add: createTime_frame_def example_series_def example_ratio_frame_def frame_eval)

lemma example_ratio:
  "fst (fetch_top_long_short_ratio (always (ok_response example_series)) ''Binance''
          ''BTCUSDT'' ''h24'' 50 (start ''key'')) = Inr example_ratio_frame"
  by (simp add: fetch_top_long_short_ratio_def example_createTime try_frame_def request_def
      always_def ok_response_def raises_for_status_def)

lemma example_position:
  "fst (fetch_top_long_short_position_ratio (always (ok_response example_series)) ''Binance''
          ''BTCUSDT'' ''h24'' 50 (start ''key'')) = Inr example_ratio_frame"
  by (simp add: fetch_top_long_short_position_ratio_def example_createTime try_frame_def
      request_def always_def ok_response_def raises_for_status_def)

lemma example_loser:
  "fst (fetch_top_long_short_loser (always (ok_response example_series)) ''Binance''
          ''BTCUSDT'' ''h24'' 50 (start ''key'')) = Inr example_ratio_frame"
  by (simp add: fetch_top_long_short_loser_def example_createTime try_frame_def
      request_def always_def ok_response_def raises_for_status_def)


section \<open>The price series\<close>

lemma records_of_objects [simp]: "records_of (JArr (map JObj recs)) = Some recs"
  by (simp add: records_of_def list_all_iff o_def)

lemma to_datetime_Inr:
  "to_datetime u cs = Inr ns \<Longrightarrow> list_all2 (\<lambda>c n. decode_time u c = Inr n) cs ns"
  by (induction cs arbitrary: ns) (auto simp: and_then_eq_Inr)

lemma decode_time_Inr:
  "decode_time u c = Inr n \<Longrightarrow> \<exists>t. c = Obj (JInt t) \<and> n = t * ns_per u \<and> representable u t"
  by (cases "(u, c)" rule: decode_time.cases)
     (auto simp: Let_def representable_def split: if_splits)

lemma decode_time_representable:
  "representable u t \<Longrightarrow> decode_time u (Obj (JInt t)) = Inr (t * ns_per u)"
  by (simp add: representable_def Let_def)

lemma cell_of_Obj: "cell_of v = Obj j \<longleftrightarrow> v = Some j"
  by (cases v) (simp_all add: cell_of_def)

lemma dt_date_seconds: "dt_date (t * 1000000000) = t div 86400"
proof -
  have "(86400000000000 :: int) = 86400 * 1000000000" by simp
  then show ?thesis unfolding dt_date_def by (metis div_mult_mult2 zero_neq_numeral)
qed

lemma dt_date_millis: "dt_date (t * 1000000) = t div 86400000"
proof -
  have "(86400000000000 :: int) = 86400000 * 1000000" by simp
  then show ?thesis unfolding dt_date_def by (metis div_mult_mult2 zero_neq_numeral)
qed

lemma those_keys_total:
  "\<forall>r\<in>set rs. row_time col r \<noteq> None \<Longrightarrow> \<exists>ks. those_keys col rs = Some ks"
  by (induction rs) auto

lemma sort_values_mset:
  assumes "sort_values df col = Inr df'"
  shows "columns df' = columns df \<and> mset (rows df') = mset (rows df)"
proof -
  from assms obtain ks where ks: "those_keys col (rows df) = Some ks"
    and df': "df' = df\<lparr>rows := map snd (rev (sort_key fst (rev (zip ks (rows df)))))\<rparr>"
    by (rule sort_values_Inr)
  have "length ks = length (rows df)"
    using those_keys_Some [OF ks] by (rule list_all2_lengthD)
  then have "map snd (zip ks (rows df)) = rows df"
    by simp
  then have "mset (map snd (rev (sort_key fst (rev (zip ks (rows df)))))) = mset (rows df)"
    by (metis mset_map mset_rev mset_sort)
  with df' show ?thesis by simp
qed

lemma price_rows:
  assumes "list_all2 (\<lambda>r n. \<exists>t. map_of r ''t'' = Some (JInt t) \<and> n = t * 1000000000) recs ns"
  shows "map Some (map (\<lambda>(r, v). map (\<lambda>(k, x). if k = ''t'' then (k, v) else (k, x)) r)
           (zip (map (frame_row [''t'', ''o'', ''h'', ''l'', ''c'', ''v'']) recs)
                (map (\<lambda>n. Date (dt_date n)) ns)))
         = map price_row recs"
  using assms
  by (induction recs ns rule: list_all2_induct)
     (auto simp: frame_row_def price_row_def price_point_def dt_date_seconds)

lemma price_frame_shape:
  assumes d: "getitem req ''data'' = Inr (JArr (map JObj recs))"
    and f: "price_frame req = Inr df"
  shows "columns df = [''t'', ''o'', ''h'', ''l'', ''c'', ''v''] \<and>
         mset (map Some (rows df)) = mset (map price_row recs)"
proof -
  define six where "six = [''t'', ''o'', ''h'', ''l'', ''c'', ''v'']"
  define df0 where "df0 = \<lparr>columns = six, rows = map (frame_row six) recs\<rparr>"
  from f d obtain ns where ns: "to_datetime Seconds (map (\<lambda>r. cell_of (map_of r ''t'')) recs) = Inr ns"
    and s: "sort_values (setcol df0 ''t'' (map (\<lambda>n. Date (dt_date n)) ns)) ''t'' = Inr df"
    by (auto simp: price_frame_def DataFrame_columns_def and_then_eq_Inr getcol_def df0_def
        six_def frame_row_def o_def)
  have "list_all2 (\<lambda>r n. decode_time Seconds (cell_of (map_of r ''t'')) = Inr n) recs ns"
    using to_datetime_Inr [OF ns] by (simp add: list_all2_map1)
  then have "list_all2 (\<lambda>r n. \<exists>t. map_of r ''t'' = Some (JInt t) \<and> n = t * 1000000000) recs ns"
    by (rule list_all2_mono) (auto dest!: decode_time_Inr simp: cell_of_Obj)
  from price_rows [OF this]
  have "map Some (rows (setcol df0 ''t'' (map (\<lambda>n. Date (dt_date n)) ns))) = map price_row recs"
    by (simp add: setcol_def df0_def six_def)
  moreover have "columns df = six" "mset (rows df) = mset (rows (setcol df0 ''t'' (map (\<lambda>n. Date (dt_date n)) ns)))"
    using sort_values_mset [OF s] by (simp_all add: setcol_def df0_def)
  ultimately show ?thesis
    by (metis mset_map six_def)
qed

lemma to_datetime_total:
  "\<forall>c\<in>set cs. \<exists>t. c = Obj (JInt t) \<and> representable u t \<Longrightarrow> \<exists>ns. to_datetime u cs = Inr ns"
  by (induction cs) (auto simp: decode_time_representable simp del: decode_time.simps)

lemma price_frame_total:
  assumes d: "getitem req ''data'' = Inr (JArr (map JObj recs))"
    and t: "\<forall>r\<in>set recs. \<exists>t. map_of r ''t'' = Some (JInt t) \<and> representable Seconds t"
  shows "\<exists>df. price_frame req = Inr df"
proof -
  define six where "six = [''t'', ''o'', ''h'', ''l'', ''c'', ''v'']"
  define df0 where "df0 = \<lparr>columns = six, rows = map (frame_row six) recs\<rparr>"
  have "\<forall>c\<in>set (map (\<lambda>r. cell_of (map_of r ''t'')) recs).
          \<exists>t. c = Obj (JInt t) \<and> representable Seconds t"
    using t by (auto simp: cell_of_def)
  from to_datetime_total [OF this] obtain ns
    where ns: "to_datetime Seconds (map (\<lambda>r. cell_of (map_of r ''t'')) recs) = Inr ns"
    by blast
  define df1 where "df1 = setcol df0 ''t'' (map (\<lambda>n. Date (dt_date n)) ns)"
  have "\<forall>r\<in>set (rows df1). row_time ''t'' r \<noteq> None"
    by (auto simp: df1_def df0_def setcol_def six_def frame_row_def row_time_def
        elim!: in_set_zipE)
  from those_keys_total [OF this] obtain ks where "those_keys ''t'' (rows df1) = Some ks"
    by blast
  moreover have "''t'' \<in> set (columns df1)"
    by (simp add: df1_def df0_def setcol_def six_def)
  ultimately have "\<exists>df. sort_values df1 ''t'' = Inr df"
    by (simp add: sort_values_def)
  moreover have "price_frame req = sort_values df1 ''t''"
    using d ns
    by (simp add: price_frame_def DataFrame_columns_def getcol_def df1_def df0_def six_def
        frame_row_def o_def)
  ultimately show ?thesis by simp
qed



section \<open>Decoding and re-encoding a time\<close>

text \<open>
  \<^bold>\<open>C9, as amended.\<close> For every epoch-millisecond integer \<open>t\<close> between
  \<open>-9223372036854\<close> and \<open>9223372036854\<close>, the range of the nanosecond timestamps,
  \<open>to_datetime\<close> with unit \<open>ms\<close> decodes \<open>t\<close>, re-encoding the timestamp to epoch
  milliseconds gives \<open>t\<close> back, and re-encoding the calendar date of the daily metrics
  gives the start of the day of \<open>t\<close>, that is \<open>t - t mod 86400000\<close>.
\<close>

theorem millis_round_trip:
  assumes "- 9223372036854 \<le> t" and "t \<le> 9223372036854"
  shows "\<exists>ns. to_datetime Millis [Obj (JInt t)] = Inr [ns] \<and>
              encode_millis ns = t \<and>
              date_to_millis (dt_date ns) = t - t mod 86400000"
proof -
  have "representable Millis t"
    using assms by (simp add: representable_def)
  then have "to_datetime Millis [Obj (JInt t)] = Inr [t * 1000000]"
    by (simp add: decode_time_representable del: decode_time.simps)
  moreover have "encode_millis (t * 1000000) = t"
    by (simp add: encode_millis_def)
  moreover have "date_to_millis (dt_date (t * 1000000)) = t - t mod 86400000"
    by (simp add: date_to_millis_def dt_date_millis minus_mod_eq_div_mult)
  ultimately show ?thesis by blast
qed

theorem millis_round_trip_witness:
  "to_datetime Millis [Obj (JInt 1700000000123)] = Inr [1700000000123000000] \<and>
   encode_millis 1700000000123000000 = 1700000000123 \<and>
   date_to_millis (dt_date 1700000000123000000) = 1699920000000"
  using millis_round_trip [of 1700000000123]
  by (auto simp: encode_millis_def)

text \<open>Outside that range there is no timestamp to re-encode: for \<open>t = 10^13\<close>
  milliseconds, in the year 2286, the decoding raises.\<close>

theorem millis_round_trip_counterexample:
  "to_datetime Millis [Obj (JInt 10000000000000)] = Inl OutOfBoundsDatetime"
  by simp

section \<open>The latest values\<close>

lemma sorted_keys_ends:
  assumes ks: "list_all2 (\<lambda>k r. row_time col r = Some k) ks (rows df)"
    and s: "sorted (rev ks)" and ne: "rows df \<noteq> []"
  shows "newest col df (rows df ! 0)" and "oldest col df (rows df ! (length (rows df) - 1))"
proof -
  have len: "length ks = length (rows df)"
    using ks by (rule list_all2_lengthD)
  have nth: "row_time col (rows df ! i) = Some (ks ! i)" if "i < length (rows df)" for i
    using ks that by (auto simp: list_all2_conv_all_nth)
  have mono: "ks ! j \<le> ks ! i" if "i \<le> j" "j < length (rows df)" for i j
    using s that len by (simp add: sorted_rev_iff_nth_mono)
  have first: "row_time col (rows df ! 0) = Some (ks ! 0)"
    using ne by (simp add: nth)
  have "\<exists>b. row_time col r' = Some b \<and> b \<le> ks ! 0" if "r' \<in> set (rows df)" for r'
  proof -
    from that obtain j where "j < length (rows df)" "r' = rows df ! j"
      by (auto simp: in_set_conv_nth)
    then show ?thesis using nth mono by simp
  qed
  with first show "newest col df (rows df ! 0)"
    unfolding newest_def by blast
  have lst: "row_time col (rows df ! (length (rows df) - 1))
               = Some (ks ! (length (rows df) - 1))"
    using ne by (simp add: nth)
  have "\<exists>b. row_time col r' = Some b \<and> ks ! (length (rows df) - 1) \<le> b"
    if "r' \<in> set (rows df)" for r'
  proof -
    from that obtain j where "j < length (rows df)" "r' = rows df ! j"
      by (auto simp: in_set_conv_nth)
    then show ?thesis using nth mono [of j "length (rows df) - 1"] ne by simp
  qed
  with lst show "oldest col df (rows df ! (length (rows df) - 1))"
    unfolding oldest_def by blast
qed

lemma fetched_keys:
  assumes "fst (except_HTTPError msg (try_frame frame r)) = Inr df"
    and "\<And>req. frame req = Inr df \<Longrightarrow> \<exists>df0. sort_values df0 col = Inr df"
  shows "\<exists>ks. list_all2 (\<lambda>k r. row_time col r = Some k) ks (rows df) \<and> sorted (rev ks)"
  using assms by (auto dest!: try_frame_Inr dest: sort_values_keys)

lemma oi_frame_sort: "oi_frame req = Inr df \<Longrightarrow> \<exists>df0. sort_values df0 ''t'' = Inr df"
  by (auto simp: oi_frame_def and_then_eq_Inr)

lemma price_frame_sort: "price_frame req = Inr df \<Longrightarrow> \<exists>df0. sort_values df0 ''t'' = Inr df"
  by (auto simp: price_frame_def and_then_eq_Inr)

lemma createTime_frame_sort:
  "createTime_frame req = Inr df \<Longrightarrow> \<exists>df0. sort_values df0 ''createTime'' = Inr df"
  by (auto simp: createTime_frame_def and_then_eq_Inr)

lemma bind_st_Inr:
  assumes "fst (bind_st r f) = Inr y"
  obtains x s where "r = (Inr x, s)" and "fst (f x s) = Inr y"
  using assms by (cases r; cases "fst r") (auto simp: bind_st_def)

lemma read_iloc_first:
  assumes "and_then (iloc df 0) (\<lambda>r. row_get r k) = Inr v"
  shows "rows df \<noteq> [] \<and> map_of (rows df ! 0) k = Some v"
  using assms
  by (auto simp: and_then_eq_Inr iloc_def row_get_def Let_def split: if_splits option.splits)

lemma read_iloc_last:
  assumes "and_then (iloc df (- 1)) (\<lambda>r. row_get r k) = Inr v"
  shows "rows df \<noteq> [] \<and> map_of (rows df ! (length (rows df) - 1)) k = Some v"
proof -
  from assms obtain r where r: "iloc df (- 1) = Inr r" and v: "row_get r k = Inr v"
    by (auto simp: and_then_eq_Inr)
  from r have ne: "rows df \<noteq> []" and "r = rows df ! nat (int (length (rows df)) + - 1)"
    by (auto simp: iloc_def Let_def split: if_splits)
  moreover have "nat (int (length (rows df)) + - 1) = length (rows df) - 1"
    by simp
  ultimately show ?thesis
    using v by (auto simp: row_get_def split: option.splits)
qed

lemma read_last_oi:
  assumes "fetch_ohlc_oi_data net ex pair st = (Inr df, s)"
    and "and_then (iloc df (- 1)) (\<lambda>r. row_get r k) = Inr v"
  shows "read_last df ''t'' k v"
proof -
  from assms(1) have "fst (fetch_ohlc_oi_data net ex pair st) = Inr df" by simp
  then obtain ks where "list_all2 (\<lambda>k r. row_time ''t'' r = Some k) ks (rows df)" "sorted (rev ks)"
    unfolding fetch_ohlc_oi_data_def using fetched_keys oi_frame_sort by blast
  with read_iloc_last [OF assms(2)] show ?thesis
    unfolding read_last_def by (blast intro: sorted_keys_ends)
qed

lemma read_first_price:
  assumes "fetch_price_ohlc_data net ex pair interval limit st = (Inr df, s)"
    and "and_then (iloc df 0) (\<lambda>r. row_get r k) = Inr v"
  shows "read_first df ''t'' k v"
proof -
  from assms(1) have "fst (fetch_price_ohlc_data net ex pair interval limit st) = Inr df" by simp
  then obtain ks where "list_all2 (\<lambda>k r. row_time ''t'' r = Some k) ks (rows df)" "sorted (rev ks)"
    unfolding fetch_price_ohlc_data_def using fetched_keys price_frame_sort by blast
  with read_iloc_first [OF assms(2)] show ?thesis
    unfolding read_first_def by (blast intro: sorted_keys_ends)
qed

lemma read_first_ratio:
  assumes "fetch_top_long_short_ratio net ex pair interval limit st = (Inr df, s)"
    and "and_then (iloc df 0) (\<lambda>r. row_get r k) = Inr v"
  shows "read_first df ''createTime'' k v"
proof -
  from assms(1) have "fst (fetch_top_long_short_ratio net ex pair interval limit st) = Inr df"
    by simp
  then obtain ks where "list_all2 (\<lambda>k r. row_time ''createTime'' r = Some k) ks (rows df)"
    "sorted (rev ks)"
    unfolding fetch_top_long_short_ratio_def using fetched_keys createTime_frame_sort by blast
  with read_iloc_first [OF assms(2)] show ?thesis
    unfolding read_first_def by (blast intro: sorted_keys_ends)
qed

lemma read_first_position:
  assumes "fetch_top_long_short_position_ratio net ex pair interval limit st = (Inr df, s)"
    and "and_then (iloc df 0) (\<lambda>r. row_get r k) = Inr v"
  shows "read_first df ''createTime'' k v"
proof -
  from assms(1)
  have "fst (fetch_top_long_short_position_ratio net ex pair interval limit st) = Inr df"
    by simp
  then obtain ks where "list_all2 (\<lambda>k r. row_time ''createTime'' r = Some k) ks (rows df)"
    "sorted (rev ks)"
    unfolding fetch_top_long_short_position_ratio_def
    using fetched_keys createTime_frame_sort by blast
  with read_iloc_first [OF assms(2)] show ?thesis
    unfolding read_first_def by (blast intro: sorted_keys_ends)
qed

lemma read_last_loser:
  assumes "fetch_top_long_short_loser net ex pair interval limit st = (Inr df, s)"
    and "and_then (iloc df (- 1)) (\<lambda>r. row_get r k) = Inr v"
  shows "read_last df ''createTime'' k v"
proof -
  from assms(1) have "fst (fetch_top_long_short_loser net ex pair interval limit st) = Inr df"
    by simp
  then obtain ks where "list_all2 (\<lambda>k r. row_time ''createTime'' r = Some k) ks (rows df)"
    "sorted (rev ks)"
    unfolding fetch_top_long_short_loser_def using fetched_keys createTime_frame_sort by blast
  with read_iloc_last [OF assms(2)] show ?thesis
    unfolding read_last_def by (blast intro: sorted_keys_ends)
qed

text \<open>
  \<^bold>\<open>C3.\<close> When the branch of \<open>main\<close> that fetches the data completes, the five
  fetches returned frames, and the summary values are read as follows: the price
  close, the top-account ratios and the top-position ratios from index 0 of their
  frames, a row with the newest time; the open interest and the all-accounts
  ratios from the last index of their frames, a row with the oldest time.
\<close>

theorem latest_values_read:
  assumes "fst (fetch_data net ex pair st) = Inr m"
  shows "\<exists>oi price acc pos los s1 s2 s3 s4.
           fetch_ohlc_oi_data net ex pair st = (Inr oi, s1) \<and>
           fetch_price_ohlc_data net ex pair ''h24'' 50 s1 = (Inr price, s2) \<and>
           fetch_top_long_short_ratio net ex pair ''h24'' 50 s2 = (Inr acc, s3) \<and>
           fetch_top_long_short_position_ratio net ex pair ''h24'' 50 s3 = (Inr pos, s4) \<and>
           fst (fetch_top_long_short_loser net ex pair ''h24'' 50 s4) = Inr los \<and>
           read_last oi ''t'' ''c'' (latest_oi m) \<and>
           read_first price ''t'' ''c'' (latest_close m) \<and>
           read_first acc ''createTime'' ''longRatio'' (fst (top_accounts m)) \<and>
           read_first acc ''createTime'' ''shortRatio'' (snd (top_accounts m)) \<and>
           read_first pos ''createTime'' ''longRatio'' (fst (top_positions m)) \<and>
           read_first pos ''createTime'' ''shortRatio'' (snd (top_positions m)) \<and>
           read_last los ''createTime'' ''longRatio'' (fst (all_accounts m)) \<and>
           read_last los ''createTime'' ''shortRatio'' (snd (all_accounts m))"
  using assms unfolding fetch_data_def
proof (elim bind_st_Inr)
  fix oi s1 v1 t1 price s2 v2 t2 acc s3 v3 t3 v4 t4 pos s4 v5 t5 v6 t6 los s5 v7 t7 v8 t8
  assume f1: "fetch_ohlc_oi_data net ex pair st = (Inr oi, s1)"
    and r1: "(and_then (iloc oi (- 1)) (\<lambda>r. row_get r ''c''), s1) = (Inr v1, t1)"
    and f2: "fetch_price_ohlc_data net ex pair ''h24'' 50 t1 = (Inr price, s2)"
    and r2: "(and_then (iloc price 0) (\<lambda>r. row_get r ''c''), s2) = (Inr v2, t2)"
    and f3: "fetch_top_long_short_ratio net ex pair ''h24'' 50 t2 = (Inr acc, s3)"
    and r3: "(and_then (iloc acc 0) (\<lambda>r. row_get r ''longRatio''), s3) = (Inr v3, t3)"
    and r4: "(and_then (iloc acc 0) (\<lambda>r. row_get r ''shortRatio''), t3) = (Inr v4, t4)"
    and f4: "fetch_top_long_short_position_ratio net ex pair ''h24'' 50 t4 = (Inr pos, s4)"
    and r5: "(and_then (iloc pos 0) (\<lambda>r. row_get r ''longRatio''), s4) = (Inr v5, t5)"
    and r6: "(and_then (iloc pos 0) (\<lambda>r. row_get r ''shortRatio''), t5) = (Inr v6, t6)"
    and f5: "fetch_top_long_short_loser net ex pair ''h24'' 50 t6 = (Inr los, s5)"
    and r7: "(and_then (iloc los (- 1)) (\<lambda>r. row_get r ''longRatio''), s5) = (Inr v7, t7)"
    and r8: "(and_then (iloc los (- 1)) (\<lambda>r. row_get r ''shortRatio''), t7) = (Inr v8, t8)"
    and m: "fst (Inr \<lparr>latest_oi = v1, latest_close = v2, top_accounts = (v3, v4),
                      top_positions = (v5, v6), all_accounts = (v7, v8)\<rparr>, t8) = Inr m"
  from r1 r2 r3 r4 r5 r6 r7 r8
  have st: "t1 = s1" "t2 = s2" "t4 = s3" "t6 = s4"
    and rd: "and_then (iloc oi (- 1)) (\<lambda>r. row_get r ''c'') = Inr v1"
      "and_then (iloc price 0) (\<lambda>r. row_get r ''c'') = Inr v2"
      "and_then (iloc acc 0) (\<lambda>r. row_get r ''longRatio'') = Inr v3"
      "and_then (iloc acc 0) (\<lambda>r. row_get r ''shortRatio'') = Inr v4"
      "and_then (iloc pos 0) (\<lambda>r. row_get r ''longRatio'') = Inr v5"
      "and_then (iloc pos 0) (\<lambda>r. row_get r ''shortRatio'') = Inr v6"
      "and_then (iloc los (- 1)) (\<lambda>r. row_get r ''longRatio'') = Inr v7"
      "and_then (iloc los (- 1)) (\<lambda>r. row_get r ''shortRatio'') = Inr v8"
    by simp_all
  from m have m': "latest_oi m = v1" "latest_close m = v2" "top_accounts m = (v3, v4)"
    "top_positions m = (v5, v6)" "all_accounts m = (v7, v8)"
    by auto
  show ?thesis
    apply (rule exI [of _ oi], rule exI [of _ price], rule exI [of _ acc], rule exI [of _ pos],
           rule exI [of _ los], rule exI [of _ s1], rule exI [of _ s2], rule exI [of _ s3],
           rule exI [of _ s4])
    using f1 f2 f3 f4 f5 st m'
      read_last_oi [OF f1 rd(1)] read_first_price [OF f2 rd(2)]
      read_first_ratio [OF f3 rd(3)] read_first_ratio [OF f3 rd(4)]
      read_first_position [OF f4 rd(5)] read_first_position [OF f4 rd(6)]
      read_last_loser [OF f5 rd(7)] read_last_loser [OF f5 rd(8)]
    by simp
qed

lemma example_fetch_data:
  "fst (fetch_data (always (ok_response example_series)) ''Binance'' ''BTCUSDT'' (start ''key''))
     = Inr example_metrics"
  by (simp add: fetch_data_def bind_st_def fetch_ohlc_oi_data_def fetch_price_ohlc_data_def
      fetch_top_long_short_ratio_def fetch_top_long_short_position_ratio_def
      fetch_top_long_short_loser_def except_HTTPError_def oi_frame_def price_frame_def
      createTime_frame_def example_series_def example_metrics_def iloc_def row_get_def
      frame_eval)

theorem latest_values_read_witness:
  "fst (fetch_data (always (ok_response example_series)) ''Binance'' ''BTCUSDT'' (start ''key''))
     = Inr example_metrics \<and>
   (\<exists>oi price acc pos los s1 s2 s3 s4.
      fetch_ohlc_oi_data (always (ok_response example_series)) ''Binance'' ''BTCUSDT''
        (start ''key'') = (Inr oi, s1) \<and>
      fetch_price_ohlc_data (always (ok_response example_series)) ''Binance'' ''BTCUSDT''
        ''h24'' 50 s1 = (Inr price, s2) \<and>
      fetch_top_long_short_ratio (always (ok_response example_series)) ''Binance'' ''BTCUSDT''
        ''h24'' 50 s2 = (Inr acc, s3) \<and>
      fetch_top_long_short_position_ratio (always (ok_response example_series)) ''Binance''
        ''BTCUSDT'' ''h24'' 50 s3 = (Inr pos, s4) \<and>
      fst (fetch_top_long_short_loser (always (ok_response example_series)) ''Binance''
        ''BTCUSDT'' ''h24'' 50 s4) = Inr los \<and>
      read_last oi ''t'' ''c'' (latest_oi example_metrics) \<and>
      read_first price ''t'' ''c'' (latest_close example_metrics) \<and>
      read_first acc ''createTime'' ''longRatio'' (fst (top_accounts example_metrics)) \<and>
      read_first acc ''createTime'' ''shortRatio'' (snd (top_accounts example_metrics)) \<and>
      read_first pos ''createTime'' ''longRatio'' (fst (top_positions example_metrics)) \<and>
      read_first pos ''createTime'' ''shortRatio'' (snd (top_positions example_metrics)) \<and>
      read_last los ''createTime'' ''longRatio'' (fst (all_accounts example_metrics)) \<and>
      read_last los ''createTime'' ''shortRatio'' (snd (all_accounts example_metrics)))"
  using example_fetch_data latest_values_read [OF example_fetch_data] by (rule conjI)

end
